theory Spec2Isabelle
  imports
    Complex_Main
    "HOL-Library.Char_ord"
    "HOL-Library.List_Lexorder"
    "HOL-Library.Product_Lexorder"
    "HOL-Library.Sublist"
begin

section \<open>The Business Metrics Engine\<close>

text \<open>
  A shallow embedding of \<^verbatim>\<open>src/tools/business_metrics_engine.py\<close>: the class
  \<^verbatim>\<open>BusinessMetricsEngine\<close> with its catalogue \<^verbatim>\<open>METRIC_DEFINITIONS\<close>, the
  method \<^verbatim>\<open>calculate\<close> and the helper \<^verbatim>\<open>_filter_by_time\<close>.

  Conventions of the model.
  \<^item> A data frame is the list of its rows; a row is a record with the thirteen columns
    that \<^verbatim>\<open>generate_data.py\<close> writes. The derived columns (year, month, quarter,
    month name) are columns of their own, as in the file: the engine never recomputes
    them from the date.
  \<^item> Strings are byte strings (UTF-8). \<^verbatim>\<open>str.isdigit\<close> is modelled on the ASCII digits.
  \<^item> A float64 is an exact rational or one of the special values \<open>inf\<close>, \<open>-inf\<close>,
    \<open>nan\<close>: rounding error, overflow and the sign of zero are left out, the special
    values that numpy's division and pandas' mean of nothing produce are kept.
  \<^item> Every \<^verbatim>\<open>raise\<close> that can happen inside the \<^verbatim>\<open>try\<close> block is a value
    \<open>Inl e\<close> of the body, which the handler at the end of \<^verbatim>\<open>calculate\<close> turns
    into its error text.
\<close>

subsection \<open>Rows and cells\<close>

text \<open>The field \<open>product_col\<close> is the column \<^verbatim>\<open>product\<close>.\<close>

record transaction =
  transaction_id :: string
  date :: "int \<times> int \<times> int"
  product_col :: string
  region :: string
  channel :: string
  quantity :: int
  unit_price :: rat
  customer_id :: string
  revenue :: rat
  year :: int
  month :: int
  quarter :: int
  month_name :: string

type_synonym dataframe = "transaction list"

datatype cell = IntCell int | FloatCell rat | StrCell string | DateCell int int int

datatype exn = KeyError string | TypeError string | LoadError string

text \<open>\<^verbatim>\<open>df[name]\<close>: the column of that name, a \<^verbatim>\<open>KeyError\<close> for any other name.\<close>

definition get_col :: "string \<Rightarrow> (transaction \<Rightarrow> cell) option" where
  "get_col name =
    (if name = ''transaction_id'' then Some (\<lambda>t. StrCell (transaction_id t))
     else if name = ''date'' then Some (\<lambda>t. case date t of (y, m, d) \<Rightarrow> DateCell y m d)
     else if name = ''product'' then Some (\<lambda>t. StrCell (product_col t))
     else if name = ''region'' then Some (\<lambda>t. StrCell (region t))
     else if name = ''channel'' then Some (\<lambda>t. StrCell (channel t))
     else if name = ''quantity'' then Some (\<lambda>t. IntCell (quantity t))
     else if name = ''unit_price'' then Some (\<lambda>t. FloatCell (unit_price t))
     else if name = ''customer_id'' then Some (\<lambda>t. StrCell (customer_id t))
     else if name = ''revenue'' then Some (\<lambda>t. FloatCell (revenue t))
     else if name = ''year'' then Some (\<lambda>t. IntCell (year t))
     else if name = ''month'' then Some (\<lambda>t. IntCell (month t))
     else if name = ''quarter'' then Some (\<lambda>t. IntCell (quarter t))
     else if name = ''month_name'' then Some (\<lambda>t. StrCell (month_name t))
     else None)"

text \<open>
  The values of a numeric column, row by row. A column that does not exist raises
  \<^verbatim>\<open>KeyError\<close>; summing or formatting a column of text or dates raises further down
  in pandas or in the format call, here at once.
\<close>

definition num_col :: "string \<Rightarrow> (transaction \<Rightarrow> rat) option" where
  "num_col name =
    (if name = ''quantity'' then Some (\<lambda>t. of_int (quantity t))
     else if name = ''unit_price'' then Some unit_price
     else if name = ''revenue'' then Some revenue
     else if name = ''year'' then Some (\<lambda>t. of_int (year t))
     else if name = ''month'' then Some (\<lambda>t. of_int (month t))
     else if name = ''quarter'' then Some (\<lambda>t. of_int (quarter t))
     else None)"

definition numeric_column :: "string \<Rightarrow> exn + (transaction \<Rightarrow> rat)" where
  "numeric_column name =
    (case get_col name of
       None \<Rightarrow> Inl (KeyError name)
     | Some c \<Rightarrow> (case num_col name of None \<Rightarrow> Inl (TypeError name) | Some f \<Rightarrow> Inr f))"

text \<open>
  The order in which \<^verbatim>\<open>groupby\<close> lists its group labels: numbers by value, text
  by code point, dates by calendar order. One column holds one kind of cell.
\<close>

fun cell_ord :: "cell \<Rightarrow> (int \<times> int \<times> int) \<times> rat \<times> string" where
  "cell_ord (IntCell i) = ((0, 0, 0), of_int i, [])"
| "cell_ord (FloatCell r) = ((0, 0, 0), r, [])"
| "cell_ord (StrCell s) = ((0, 0, 0), 0, s)"
| "cell_ord (DateCell y m d) = ((y, m, d), 0, [])"

subsection \<open>float64 values\<close>

datatype float64 = Finite rat | PosInf | NegInf | NaN

text \<open>numpy's \<open>a / b\<close> on finite values: no exception, the special values at \<open>b = 0\<close>.\<close>

definition np_div :: "rat \<Rightarrow> rat \<Rightarrow> float64" where
  "np_div a b =
    (if b = 0 then (if 0 < a then PosInf else if a < 0 then NegInf else NaN)
     else Finite (a / b))"

text \<open>\<open>x * k\<close> for a finite positive constant \<open>k\<close>.\<close>

fun np_scale :: "float64 \<Rightarrow> rat \<Rightarrow> float64" where
  "np_scale (Finite r) k = Finite (r * k)"
| "np_scale PosInf k = PosInf"
| "np_scale NegInf k = NegInf"
| "np_scale NaN k = NaN"

text \<open>\<open>x > 0\<close>: false for \<open>nan\<close>.\<close>

fun gt_zero :: "float64 \<Rightarrow> bool" where
  "gt_zero (Finite r) = (0 < r)"
| "gt_zero PosInf = True"
| "gt_zero NegInf = False"
| "gt_zero NaN = False"

text \<open>\<^verbatim>\<open>Series.sum()\<close> and \<^verbatim>\<open>Series.mean()\<close>: the sum of no rows is 0, their mean is \<open>nan\<close>.\<close>

definition series_sum :: "rat list \<Rightarrow> rat" where
  "series_sum xs = sum_list xs"

definition series_mean :: "rat list \<Rightarrow> float64" where
  "series_mean xs = (if xs = [] then NaN else Finite (sum_list xs / of_nat (length xs)))"

subsection \<open>The metric catalogue\<close>

record metric_def =
  formula :: string
  column :: string
  group_by :: "string option"
  description :: string

definition METRIC_DEFINITIONS :: "(string \<times> metric_def) list" where
  "METRIC_DEFINITIONS =
    [(''total_revenue'',
        \<lparr>formula = ''sum'', column = ''revenue'', group_by = None,
         description = ''Sum of all revenue''\<rparr>),
     (''average_order_value'',
        \<lparr>formula = ''mean'', column = ''revenue'', group_by = None,
         description = ''Average revenue per transaction''\<rparr>),
     (''total_transactions'',
        \<lparr>formula = ''count'', column = ''transaction_id'', group_by = None,
         description = ''Total number of transactions''\<rparr>),
     (''customer_count'',
        \<lparr>formula = ''unique_count'', column = ''customer_id'', group_by = None,
         description = ''Number of unique customers''\<rparr>),
     (''top_products'',
        \<lparr>formula = ''group_sum_ranked'', column = ''revenue'', group_by = Some ''product'',
         description = ''Products ranked by revenue''\<rparr>),
     (''top_regions'',
        \<lparr>formula = ''group_sum_ranked'', column = ''revenue'', group_by = Some ''region'',
         description = ''Regions ranked by revenue''\<rparr>),
     (''revenue_by_channel'',
        \<lparr>formula = ''group_sum'', column = ''revenue'', group_by = Some ''channel'',
         description = ''Revenue by sales channel''\<rparr>),
     (''monthly_revenue'',
        \<lparr>formula = ''time_series'', column = ''revenue'', group_by = Some ''month_name'',
         description = ''Revenue by month''\<rparr>),
     (''growth_rate'',
        \<lparr>formula = ''percentage_change'', column = ''revenue'', group_by = None,
         description = ''Month-over-month growth rate''\<rparr>)]"

definition metric_names :: "string list" where
  "metric_names = map fst METRIC_DEFINITIONS"

subsection \<open>The time filter\<close>

definition months :: "string list" where
  "months = [''January'', ''February'', ''March'', ''April'', ''May'', ''June'',
             ''July'', ''August'', ''September'', ''October'', ''November'', ''December'']"

definition is_digit_char :: "char \<Rightarrow> bool" where
  "is_digit_char c = (CHR ''0'' \<le> c \<and> c \<le> CHR ''9'')"

text \<open>\<^verbatim>\<open>s.isdigit()\<close>: at least one character, all of them digits.\<close>

definition isdigit :: "string \<Rightarrow> bool" where
  "isdigit s = (s \<noteq> [] \<and> list_all is_digit_char s)"

definition digit_val :: "char \<Rightarrow> int" where
  "digit_val c = int (of_char c) - 48"

text \<open>\<^verbatim>\<open>int(s)\<close> on a string of digits.\<close>

definition int_of_digits :: "string \<Rightarrow> int" where
  "int_of_digits s = foldl (\<lambda>acc c. 10 * acc + digit_val c) 0 s"

definition filter_by_time :: "dataframe \<Rightarrow> string \<Rightarrow> dataframe" where
  "filter_by_time df time_period =
    (if time_period \<in> set [''Q1'', ''Q2'', ''Q3'', ''Q4'']
     then (let quarter_num = int_of_digits [time_period ! 1]
           in filter (\<lambda>t. quarter t = quarter_num) df)
     else if time_period \<in> set months
     then filter (\<lambda>t. month_name t = time_period) df
     else if isdigit time_period
     then filter (\<lambda>t. year t = int_of_digits time_period) df
     else df)"

subsection \<open>Grouping, sorting, truncating\<close>

text \<open>
  \<^verbatim>\<open>df.groupby(key)[col].sum()\<close>: one entry per distinct label, the labels in
  ascending order (\<open>ord\<close> maps a label into the order used), each with the sum of the
  value column over the rows carrying that label.
\<close>

definition groupby_sum ::
  "(transaction \<Rightarrow> 'k) \<Rightarrow> ('k \<Rightarrow> 'o::linorder) \<Rightarrow> (transaction \<Rightarrow> rat) \<Rightarrow> dataframe
    \<Rightarrow> ('k \<times> rat) list" where
  "groupby_sum key ord val df =
    map (\<lambda>k. (k, series_sum (map val (filter (\<lambda>t. key t = k) df))))
      (sort_key ord (remdups (map key df)))"

text \<open>
  \<^verbatim>\<open>sort_values(ascending=False)\<close>: descending by value. The source names no order
  for equal values; the model takes the stable one (equal values stay in label order).
\<close>

definition sort_values_desc :: "('k \<times> rat) list \<Rightarrow> ('k \<times> rat) list" where
  "sort_values_desc xs = sort_key (\<lambda>kv. - snd kv) xs"

text \<open>\<^verbatim>\<open>head(n)\<close> is \<^verbatim>\<open>iloc[:n]\<close>: a negative \<open>n\<close> drops the last \<open>-n\<close> entries.\<close>

definition head :: "int \<Rightarrow> 'a list \<Rightarrow> 'a list" where
  "head n xs = (if 0 \<le> n then take (nat n) xs else take (nat (int (length xs) + n)) xs)"

text \<open>\<^verbatim>\<open>a or b\<close> on optional strings: \<^verbatim>\<open>None\<close> and the empty string are falsy.\<close>

definition py_or :: "string option \<Rightarrow> string option \<Rightarrow> string option" where
  "py_or a b = (case a of None \<Rightarrow> b | Some s \<Rightarrow> if s = [] then b else Some s)"

text \<open>\<^verbatim>\<open>df['date'].dt.to_period('M')\<close>: the year and month of the date.\<close>

definition to_period_M :: "transaction \<Rightarrow> int \<times> int" where
  "to_period_M t = (case date t of (y, m, d) \<Rightarrow> (y, m))"

subsection \<open>Results\<close>

text \<open>
  One constructor for each \<^verbatim>\<open>return\<close> of \<^verbatim>\<open>calculate\<close>, carrying the values
  the returned text is built from; \<open>CalcError\<close> is the return of the handler.
\<close>

datatype trend = PositiveGrowth | NegativeGrowth

datatype outcome =
    MetricNotFound string "string list"
  | DataFileNotFound string
  | NoDataForPeriod string
  | SumResult string rat
  | MeanResult string float64
  | CountResult string nat
  | UniqueCountResult string nat string
  | GroupByRequired
  | RankedResult string int "(cell \<times> rat) list"
  | GroupResult string "(cell \<times> rat) list"
  | SeriesResult string "(string \<times> rat) list"
  | GrowthResult string rat rat float64 trend
  | NeedTwoMonths
  | UnknownFormula string
  | CalcError exn

text \<open>The results whose text starts with the failure mark.\<close>

fun is_failure :: "outcome \<Rightarrow> bool" where
  "is_failure (MetricNotFound n ns) = True"
| "is_failure (DataFileNotFound p) = True"
| "is_failure (NoDataForPeriod p) = True"
| "is_failure GroupByRequired = True"
| "is_failure NeedTwoMonths = True"
| "is_failure (UnknownFormula f) = True"
| "is_failure (CalcError e) = True"
| "is_failure (SumResult n r) = False"
| "is_failure (MeanResult n r) = False"
| "is_failure (CountResult n k) = False"
| "is_failure (UniqueCountResult n k c) = False"
| "is_failure (RankedResult n l xs) = False"
| "is_failure (GroupResult n xs) = False"
| "is_failure (SeriesResult n xs) = False"
| "is_failure (GrowthResult n l p g b) = False"

subsection \<open>The aggregation strategies\<close>

definition time_series :: "(transaction \<Rightarrow> rat) \<Rightarrow> dataframe \<Rightarrow> (string \<times> rat) list" where
  "time_series val df =
    (let monthly = groupby_sum month_name id val df;
         month_order = months
     in List.map_filter (\<lambda>m. map_option (Pair m) (map_of monthly m)) month_order)"

definition percentage_change :: "string \<Rightarrow> (transaction \<Rightarrow> rat) \<Rightarrow> dataframe \<Rightarrow> outcome" where
  "percentage_change metric_name val df =
    (let monthly = sort_key fst (groupby_sum to_period_M id val df)
     in if length monthly < 2 then NeedTwoMonths
        else (let latest = snd (monthly ! (length monthly - 1));
                  previous = snd (monthly ! (length monthly - 2));
                  growth = np_scale (np_div (latest - previous) previous) 100
              in GrowthResult metric_name latest previous growth
                   (if gt_zero growth then PositiveGrowth else NegativeGrowth)))"

definition apply_formula ::
  "string \<Rightarrow> metric_def \<Rightarrow> dataframe \<Rightarrow> string option \<Rightarrow> int \<Rightarrow> exn + outcome" where
  "apply_formula metric_name md df group_by_arg limit =
    (if formula md = ''sum'' then
       (case numeric_column (column md) of
          Inl e \<Rightarrow> Inl e
        | Inr val \<Rightarrow> Inr (SumResult metric_name (series_sum (map val df))))
     else if formula md = ''mean'' then
       (case numeric_column (column md) of
          Inl e \<Rightarrow> Inl e
        | Inr val \<Rightarrow> Inr (MeanResult metric_name (series_mean (map val df))))
     else if formula md = ''count'' then
       Inr (CountResult metric_name (length df))
     else if formula md = ''unique_count'' then
       (case get_col (column md) of
          None \<Rightarrow> Inl (KeyError (column md))
        | Some c \<Rightarrow> Inr (UniqueCountResult metric_name (length (remdups (map c df))) (column md)))
     else if formula md = ''group_sum_ranked'' then
       (case py_or group_by_arg (group_by md) of
          None \<Rightarrow> Inr GroupByRequired
        | Some group_col \<Rightarrow>
            (if group_col = [] then Inr GroupByRequired
             else (case get_col group_col of
                     None \<Rightarrow> Inl (KeyError group_col)
                   | Some key \<Rightarrow>
                       (case numeric_column (column md) of
                          Inl e \<Rightarrow> Inl e
                        | Inr val \<Rightarrow>
                            Inr (RankedResult metric_name limit
                                  (head limit
                                    (sort_values_desc (groupby_sum key cell_ord val df))))))))
     else if formula md = ''group_sum'' then
       (case py_or group_by_arg (group_by md) of
          None \<Rightarrow> Inl (TypeError ''groupby'')
        | Some group_col \<Rightarrow>
            (case get_col group_col of
               None \<Rightarrow> Inl (KeyError group_col)
             | Some key \<Rightarrow>
                 (case numeric_column (column md) of
                    Inl e \<Rightarrow> Inl e
                  | Inr val \<Rightarrow>
                      Inr (GroupResult metric_name
                            (sort_values_desc (groupby_sum key cell_ord val df))))))
     else if formula md = ''time_series'' then
       (case numeric_column (column md) of
          Inl e \<Rightarrow> Inl e
        | Inr val \<Rightarrow> Inr (SeriesResult metric_name (time_series val df)))
     else if formula md = ''percentage_change'' then
       (case numeric_column (column md) of
          Inl e \<Rightarrow> Inl e
        | Inr val \<Rightarrow> Inr (percentage_change metric_name val df))
     else Inr (UnknownFormula (formula md)))"

subsection \<open>The data source\<close>

text \<open>
  The file system as \<^verbatim>\<open>calculate\<close> sees it: \<open>None\<close> where
  \<^verbatim>\<open>os.path.exists\<close> is false; \<open>Some (Inl e)\<close> where \<^verbatim>\<open>pd.read_csv\<close> or
  \<^verbatim>\<open>pd.to_datetime\<close> raises (a file that is no table, a missing or unparseable date
  column); \<open>Some (Inr df)\<close> for the frame that was read, its dates parsed.
\<close>

type_synonym files = "string \<Rightarrow> (exn + dataframe) option"

subsection \<open>calculate\<close>

definition calculate_body ::
  "files \<Rightarrow> string \<Rightarrow> string \<Rightarrow> string \<Rightarrow> string option \<Rightarrow> int \<Rightarrow> exn + outcome" where
  "calculate_body fs metric_name dataframe_path time_period group_by_arg limit =
    (case map_of METRIC_DEFINITIONS metric_name of
       None \<Rightarrow> Inr (MetricNotFound metric_name (map fst METRIC_DEFINITIONS))
     | Some md \<Rightarrow>
         (case fs dataframe_path of
            None \<Rightarrow> Inr (DataFileNotFound dataframe_path)
          | Some (Inl e) \<Rightarrow> Inl e
          | Some (Inr df0) \<Rightarrow>
              (if time_period \<noteq> ''all'' then
                 (let df = filter_by_time df0 time_period
                  in if length df = 0 then Inr (NoDataForPeriod time_period)
                     else apply_formula metric_name md df group_by_arg limit)
               else apply_formula metric_name md df0 group_by_arg limit)))"

text \<open>The \<^verbatim>\<open>try\<close> with its handler \<^verbatim>\<open>except Exception as e\<close>.\<close>

definition calculate_outcome ::
  "files \<Rightarrow> string \<Rightarrow> string \<Rightarrow> string \<Rightarrow> string option \<Rightarrow> int \<Rightarrow> outcome" where
  "calculate_outcome fs metric_name dataframe_path time_period group_by_arg limit =
    (case calculate_body fs metric_name dataframe_path time_period group_by_arg limit of
       Inl e \<Rightarrow> CalcError e
     | Inr out \<Rightarrow> out)"

subsection \<open>The returned text\<close>

text \<open>The marks at the head of the texts, byte for byte as the source file has them.\<close>

definition fail_mark :: string where
  "fail_mark = [CHR 0xE2, CHR 0x80, CHR 0x9A, CHR 0xC3, CHR 0xB9, CHR 0xC3, CHR 0xA5]"

definition ok_mark :: string where
  "ok_mark = [CHR 0xE2, CHR 0x80, CHR 0x9A, CHR 0xC3, CHR 0xBA, CHR 0xC3, CHR 0x96]"

definition up_mark :: string where
  "up_mark = [CHR 0xEF, CHR 0xA3, CHR 0xBF, CHR 0xC3, CHR 0xBC, CHR 0xC3, CHR 0xAC, CHR 0xC3, CHR 0xA0]"

definition down_mark :: string where
  "down_mark = [CHR 0xEF, CHR 0xA3, CHR 0xBF, CHR 0xC3, CHR 0xBC, CHR 0xC3, CHR 0xAC, CHR 0xC3, CHR 0xA2]"

definition nl :: string where
  "nl = [CHR 0x0A]"

definition quote :: string where
  "quote = [CHR 0x27]"

text \<open>\<^verbatim>\<open>sep.join(xs)\<close>\<close>

fun join :: "string \<Rightarrow> string list \<Rightarrow> string" where
  "join sep [] = []"
| "join sep [x] = x"
| "join sep (x # y # ys) = x @ sep @ join sep (y # ys)"

definition digit_char :: "nat \<Rightarrow> char" where
  "digit_char d = ''0123456789'' ! (d mod 10)"

fun str_nat :: "nat \<Rightarrow> string" where
  "str_nat n = (if n < 10 then [digit_char n] else str_nat (n div 10) @ [digit_char (n mod 10)])"

declare str_nat.simps [simp del]

definition str_int :: "int \<Rightarrow> string" where
  "str_int i = (if i < 0 then ''-'' @ str_nat (nat (- i)) else str_nat (nat i))"

text \<open>The thousands separators of the format \<^verbatim>\<open>,\<close>.\<close>

fun commas :: "string \<Rightarrow> string" where
  "commas ds =
    (if length ds \<le> 3 then ds
     else commas (take (length ds - 3) ds) @ '','' @ drop (length ds - 3) ds)"

declare commas.simps [simp del]

definition pad0 :: "nat \<Rightarrow> string \<Rightarrow> string" where
  "pad0 n ds = replicate (n - length ds) (CHR ''0'') @ ds"

text \<open>Rounding to the nearest integer, a tie to the even one.\<close>

definition round_half_even :: "rat \<Rightarrow> int" where
  "round_half_even r =
    (let f = \<lfloor>r\<rfloor>; d = r - of_int f
     in if d < 1 / 2 then f else if 1 / 2 < d then f + 1 else if even f then f else f + 1)"

text \<open>
  The formats \<^verbatim>\<open>.2f\<close>, \<^verbatim>\<open>,.2f\<close> and \<^verbatim>\<open>+.2f\<close>: \<open>show_plus\<close> asks for the sign of
  a value that is not negative, \<open>sep\<close> for the thousands separators.
\<close>

definition fmt_2f :: "bool \<Rightarrow> bool \<Rightarrow> float64 \<Rightarrow> string" where
  "fmt_2f show_plus sep x =
    (case x of
       Finite r \<Rightarrow>
         (let c = nat (round_half_even (\<bar>r\<bar> * 100));
              ip = str_nat (c div 100)
          in (if r < 0 then ''-'' else if show_plus then ''+'' else [])
             @ (if sep then commas ip else ip) @ ''.'' @ pad0 2 (str_nat (c mod 100)))
     | PosInf \<Rightarrow> (if show_plus then ''+'' else []) @ ''inf''
     | NegInf \<Rightarrow> ''-inf''
     | NaN \<Rightarrow> (if show_plus then ''+'' else []) @ ''nan'')"

definition money :: "float64 \<Rightarrow> string" where
  "money x = ''$'' @ fmt_2f False True x"

text \<open>
  The text of a group label. The text of a float label is Python's shortest repr, a
  library routine taken as the parameter \<open>float_str\<close>.
\<close>

fun str_cell :: "(rat \<Rightarrow> string) \<Rightarrow> cell \<Rightarrow> string" where
  "str_cell float_str (IntCell i) = str_int i"
| "str_cell float_str (FloatCell r) = float_str r"
| "str_cell float_str (StrCell s) = s"
| "str_cell float_str (DateCell y m d) =
     pad0 4 (str_int y) @ ''-'' @ pad0 2 (str_int m) @ ''-'' @ pad0 2 (str_int d) @ '' 00:00:00''"

fun str_exn :: "exn \<Rightarrow> string" where
  "str_exn (KeyError k) = quote @ k @ quote"
| "str_exn (TypeError m) = m"
| "str_exn (LoadError m) = m"

text \<open>\<^verbatim>\<open>column.replace('_', ' ')\<close>\<close>

definition replace_underscores :: "string \<Rightarrow> string" where
  "replace_underscores s = map (\<lambda>c. if c = CHR ''_'' then CHR '' '' else c) s"

fun render :: "(rat \<Rightarrow> string) \<Rightarrow> outcome \<Rightarrow> string" where
  "render float_str (MetricNotFound metric_name available) =
     fail_mark @ '' Metric '' @ quote @ metric_name @ quote @ '' not found.'' @ nl @ nl
       @ ''Available: '' @ join '', '' available"
| "render float_str (DataFileNotFound dataframe_path) =
     fail_mark @ '' Data file not found: '' @ dataframe_path"
| "render float_str (NoDataForPeriod time_period) =
     fail_mark @ '' No data for time period: '' @ time_period"
| "render float_str (SumResult metric_name result) =
     ok_mark @ '' '' @ metric_name @ '': '' @ money (Finite result)"
| "render float_str (MeanResult metric_name result) =
     ok_mark @ '' '' @ metric_name @ '': '' @ money result"
| "render float_str (CountResult metric_name result) =
     ok_mark @ '' '' @ metric_name @ '': '' @ commas (str_nat result) @ '' transactions''"
| "render float_str (UniqueCountResult metric_name result col) =
     ok_mark @ '' '' @ metric_name @ '': '' @ commas (str_nat result) @ '' unique ''
       @ replace_underscores col"
| "render float_str GroupByRequired =
     fail_mark @ '' This metric requires a group_by parameter''"
| "render float_str (RankedResult metric_name limit result) =
     ok_mark @ '' '' @ metric_name @ '' (Top '' @ str_int limit @ ''):'' @ nl @ nl
       @ concat (map (\<lambda>(rank, name, v).
                        str_nat rank @ ''. '' @ str_cell float_str name @ '': '' @ money (Finite v) @ nl)
                  (zip [1 ..< Suc (length result)] result))"
| "render float_str (GroupResult metric_name result) =
     ok_mark @ '' '' @ metric_name @ '':'' @ nl @ nl
       @ concat (map (\<lambda>(name, v).
                        ''- '' @ str_cell float_str name @ '': '' @ money (Finite v) @ nl) result)"
| "render float_str (SeriesResult metric_name monthly) =
     ok_mark @ '' '' @ metric_name @ '':'' @ nl @ nl
       @ concat (map (\<lambda>(m, v). ''- '' @ m @ '': '' @ money (Finite v) @ nl) monthly)"
| "render float_str (GrowthResult metric_name latest previous growth tr) =
     ok_mark @ '' '' @ metric_name @ '':'' @ nl @ nl
       @ ''Latest month: '' @ money (Finite latest) @ nl
       @ ''Previous month: '' @ money (Finite previous) @ nl
       @ ''Growth rate: '' @ fmt_2f True False growth @ ''%'' @ nl
       @ (case tr of
            PositiveGrowth \<Rightarrow> nl @ up_mark @ '' Positive growth''
          | NegativeGrowth \<Rightarrow> nl @ down_mark @ '' Negative growth'')"
| "render float_str NeedTwoMonths =
     fail_mark @ '' Need at least 2 months for growth rate''"
| "render float_str (UnknownFormula f) =
     fail_mark @ '' Unknown formula: '' @ f"
| "render float_str (CalcError e) =
     fail_mark @ '' Error calculating metric: '' @ str_exn e"

definition calculate ::
  "(rat \<Rightarrow> string) \<Rightarrow> files \<Rightarrow> string \<Rightarrow> string \<Rightarrow> string \<Rightarrow> string option \<Rightarrow> int \<Rightarrow> string" where
  "calculate float_str fs metric_name dataframe_path time_period group_by_arg limit =
    render float_str
      (calculate_outcome fs metric_name dataframe_path time_period group_by_arg limit)"

section \<open>Example inputs\<close>

text \<open>A file system with no file at all.\<close>

definition no_files :: files where
  "no_files p = None"

text \<open>A file system with the one file \<^verbatim>\<open>data.csv\<close>, read as the frame \<open>df\<close>.\<close>

definition one_file :: "dataframe \<Rightarrow> files" where
  "one_file df p = (if p = ''data.csv'' then Some (Inr df) else None)"


text \<open>
  A row as \<^verbatim>\<open>generate_data.py\<close> derives it from a date, a product and a revenue
  (the month between 1 and 12).
\<close>

definition sale :: "string \<Rightarrow> int \<Rightarrow> int \<Rightarrow> int \<Rightarrow> string \<Rightarrow> rat \<Rightarrow> transaction" where
  "sale tid y m d p r =
    \<lparr>transaction_id = tid, date = (y, m, d), product_col = p, region = ''North'',
     channel = ''Online'', quantity = 1, unit_price = r, customer_id = ''CUST1000'',
     revenue = r, year = y, month = m, quarter = (m - 1) div 3 + 1,
     month_name = months ! nat (m - 1)\<rparr>"

text \<open>January 2024 sums to 0, February 2024 to 50.\<close>

definition zero_previous_df :: dataframe where
  "zero_previous_df =
    [sale ''TXN0001'' 2024 1 15 ''Mouse'' 0, sale ''TXN0002'' 2024 2 10 ''Laptop'' 50]"


text \<open>January 2024 sums to 100, February 2024 to 150.\<close>

definition jan_feb_df :: dataframe where
  "jan_feb_df =
    [sale ''TXN0001'' 2024 1 15 ''Mouse'' 40, sale ''TXN0002'' 2024 1 20 ''Laptop'' 60,
     sale ''TXN0003'' 2024 2 10 ''Laptop'' 150]"

text \<open>One month only.\<close>

definition jan_only_df :: dataframe where
  "jan_only_df = [sale ''TXN0001'' 2024 1 15 ''Mouse'' 40, sale ''TXN0002'' 2024 1 20 ''Laptop'' 60]"

text \<open>January 2024 sums to 150, February 2024 to 100.\<close>

definition falling_df :: dataframe where
  "falling_df =
    [sale ''TXN0001'' 2024 1 15 ''Mouse'' 150, sale ''TXN0002'' 2024 2 10 ''Laptop'' 100]"

text \<open>The same month name in two years: January 2023 sums to 80, January 2024 to 100.\<close>

definition two_januaries_df :: dataframe where
  "two_januaries_df =
    [sale ''TXN0001'' 2024 1 15 ''Mouse'' 100, sale ''TXN0002'' 2023 1 10 ''Laptop'' 80]"


text \<open>A text for float labels, for the examples in which no float label is printed.\<close>

definition no_float_labels :: "rat \<Rightarrow> string" where
  "no_float_labels r = []"

text \<open>Rows out of calendar order: March, January, March.\<close>

definition unordered_df :: dataframe where
  "unordered_df =
    [sale ''TXN0001'' 2024 3 15 ''Mouse'' 30, sale ''TXN0002'' 2024 1 10 ''Laptop'' 40,
     sale ''TXN0003'' 2024 3 20 ''Mouse'' 5]"



text \<open>Both months sum to 0.\<close>

definition both_zero_df :: dataframe where
  "both_zero_df =
    [sale ''TXN0001'' 2024 1 15 ''Mouse'' 0, sale ''TXN0002'' 2024 2 10 ''Laptop'' 0]"

section \<open>Properties\<close>

subsection \<open>The catalogue and the marks\<close>

lemma metric_names_eq:
  "metric_names = [''total_revenue'', ''average_order_value'', ''total_transactions'',
     ''customer_count'', ''top_products'', ''top_regions'', ''revenue_by_channel'',
     ''monthly_revenue'', ''growth_rate'']"
  by (simp add: metric_names_def METRIC_DEFINITIONS_def)

lemma map_of_catalogue_None:
  "map_of METRIC_DEFINITIONS n = None \<longleftrightarrow> n \<notin> set metric_names"
  by (simp add: metric_names_def map_of_eq_None_iff)

lemma sublist_join: "x \<in> set xs \<Longrightarrow> sublist x (join sep xs)"
proof (induction sep xs rule: join.induct)
  case (1 sep)
  then show ?case by simp
next
  case (2 sep x')
  then show ?case by simp
next
  case (3 sep a b ys)
  show ?case
  proof (cases "x = a")
    case True
    then show ?thesis by (simp add: sublist_append)
  next
    case False
    with 3 have "sublist x (join sep (b # ys))" by simp
    then show ?thesis
      by (metis join.simps(3) sublist_append)
  qed
qed



subsection \<open>Unknown metrics\<close>

text \<open>
  C4. A metric name outside the catalogue of nine makes \<open>calculate\<close> return the
  not-found failure whatever the other arguments are: its text carries the failure
  mark and lists every name of the catalogue, and no metric is computed instead.
\<close>

theorem unknown_metric:
  assumes "metric_name \<notin> set metric_names"
  shows "calculate_outcome fs metric_name dataframe_path time_period group_by_arg limit
           = MetricNotFound metric_name metric_names
       \<and> calculate fstr fs metric_name dataframe_path time_period group_by_arg limit
           = fail_mark @ '' Metric '' @ quote @ metric_name @ quote @ '' not found.'' @ nl @ nl
               @ ''Available: '' @ join '', '' metric_names
       \<and> (\<forall>n \<in> set metric_names.
             sublist n (calculate fstr fs metric_name dataframe_path time_period group_by_arg limit))
       \<and> length metric_names = 9"
proof -
  have none: "map_of METRIC_DEFINITIONS metric_name = None"
    using assms by (simp add: map_of_catalogue_None)
  have out: "calculate_outcome fs metric_name dataframe_path time_period group_by_arg limit
           = MetricNotFound metric_name metric_names"
    by (simp add: calculate_outcome_def calculate_body_def none metric_names_def)
  have rendered: "calculate fstr fs metric_name dataframe_path time_period group_by_arg limit
           = fail_mark @ '' Metric '' @ quote @ metric_name @ quote @ '' not found.'' @ nl @ nl
               @ ''Available: '' @ join '', '' metric_names"
    by (simp add: calculate_def out)
  have "sublist n (calculate fstr fs metric_name dataframe_path time_period group_by_arg limit)"
    if "n \<in> set metric_names" for n
  proof -
    have "sublist n (join '', '' metric_names)" using that by (rule sublist_join)
    then obtain a b where "join '', '' metric_names = a @ n @ b"
      by (auto simp: sublist_def)
    then have "calculate fstr fs metric_name dataframe_path time_period group_by_arg limit
        = (fail_mark @ '' Metric '' @ quote @ metric_name @ quote @ '' not found.'' @ nl @ nl
               @ ''Available: '' @ a) @ n @ b"
      by (simp add: rendered)
    then show ?thesis unfolding sublist_def by blast
  qed
  moreover have "length metric_names = 9" by (simp add: metric_names_eq)
  ultimately show ?thesis using out rendered by blast
qed

theorem unknown_metric_witness:
  "''profit'' \<notin> set metric_names
   \<and> calculate_outcome no_files ''profit'' ''data.csv'' ''all'' None 5
       = MetricNotFound ''profit'' metric_names
   \<and> sublist ''growth_rate''
        (calculate no_float_labels no_files ''profit'' ''data.csv'' ''all'' None 5)"
proof -
  have h: "''profit'' \<notin> set metric_names" by (simp add: metric_names_eq)
  have g: "''growth_rate'' \<in> set metric_names" by (simp add: metric_names_eq)
  show ?thesis
    using unknown_metric [OF h, of no_files "''data.csv''" "''all''" None 5 no_float_labels] h g
    by blast
qed

subsection \<open>The check for an empty period\<close>





subsection \<open>The mean of no rows\<close>




subsection \<open>Growth over a previous month that sums to zero\<close>

text \<open>
  C1. The claim asks for an error when the previous month sums to zero. The source
  divides without a check: on January 2024 = 0 and February 2024 = 50 it returns the
  success text with the growth \<open>+inf\<close> and the mark of positive growth; where both
  months sum to 0 the growth is \<open>nan\<close> with the mark of negative growth.
\<close>

theorem growth_zero_previous:
  "calculate_outcome (one_file zero_previous_df) ''growth_rate'' ''data.csv'' ''all'' None 5
     = GrowthResult ''growth_rate'' 50 0 PosInf PositiveGrowth
   \<and> \<not> is_failure
        (calculate_outcome (one_file zero_previous_df) ''growth_rate'' ''data.csv'' ''all'' None 5)
   \<and> calculate no_float_labels (one_file zero_previous_df) ''growth_rate'' ''data.csv'' ''all'' None 5
     = ok_mark @ '' growth_rate:'' @ nl @ nl @ ''Latest month: $50.00'' @ nl
        @ ''Previous month: $0.00'' @ nl @ ''Growth rate: +inf%'' @ nl @ nl
        @ up_mark @ '' Positive growth''
   \<and> calculate_outcome (one_file both_zero_df) ''growth_rate'' ''data.csv'' ''all'' None 5
     = GrowthResult ''growth_rate'' 0 0 NaN NegativeGrowth"
  by code_simp

subsection \<open>The time filter\<close>




lemma int_of_digits_snoc: "int_of_digits (s @ [c]) = 10 * int_of_digits s + digit_val c"
  by (simp add: int_of_digits_def)




subsection \<open>Grouping by calendar month\<close>










subsection \<open>The number formats\<close>












subsection \<open>Month-over-month growth\<close>


lemma numeric_column_revenue: "numeric_column ''revenue'' = Inr revenue"
  by (simp add: numeric_column_def get_col_def num_col_def)






text \<open>The examples of the specification, and the same month name in two years.\<close>

lemma growth_examples:
  "calculate_outcome (one_file jan_feb_df) ''growth_rate'' ''data.csv'' ''all'' None 5
     = GrowthResult ''growth_rate'' 150 100 (Finite 50) PositiveGrowth"
  "fmt_2f True False (Finite 50) = ''+50.00''"
  "calculate_outcome (one_file falling_df) ''growth_rate'' ''data.csv'' ''all'' None 5
     = GrowthResult ''growth_rate'' 100 150 (Finite (- 100 / 3)) NegativeGrowth"
  "fmt_2f True False (Finite (- 100 / 3)) = ''-33.33''"
  "calculate_outcome (one_file jan_only_df) ''growth_rate'' ''data.csv'' ''all'' None 5
     = NeedTwoMonths"
  "calculate_outcome (one_file two_januaries_df) ''growth_rate'' ''data.csv'' ''all'' None 5
     = GrowthResult ''growth_rate'' 100 80 (Finite 25) PositiveGrowth"
  by code_simp+





subsection \<open>The trend annotation\<close>







subsection \<open>The monthly series\<close>

lemma map_of_groupby_sum:
  "map_of (groupby_sum key ord val df) k =
     (if k \<in> key ` set df then Some (sum_list (map val (filter (\<lambda>t. key t = k) df))) else None)"
proof -
  have "map_of (map (\<lambda>k. (k, series_sum (map val (filter (\<lambda>t. key t = k) df))))
          (sort_key ord (remdups (map key df)))) k
      = ((Some \<circ> (\<lambda>k. series_sum (map val (filter (\<lambda>t. key t = k) df))))
          |` set (sort_key ord (remdups (map key df)))) k"
    by (simp only: map_of_map_restrict)
  then show ?thesis
    by (simp add: groupby_sum_def restrict_map_def series_sum_def)
qed

lemma map_filter_lookup:
  "List.map_filter (\<lambda>m. map_option (Pair m) (if P m then Some (f m) else None)) xs
     = map (\<lambda>m. (m, f m)) (filter P xs)"
  by (induction xs) (simp_all add: map_filter_simps)

lemma time_series_eq:
  "time_series val df =
     map (\<lambda>m. (m, sum_list (map val (filter (\<lambda>t. month_name t = m) df))))
       (filter (\<lambda>m. m \<in> month_name ` set df) months)"
  by (simp add: time_series_def Let_def map_of_groupby_sum map_filter_lookup)

lemma monthly_revenue_entry:
  "map_of METRIC_DEFINITIONS ''monthly_revenue''
     = Some \<lparr>formula = ''time_series'', column = ''revenue'', group_by = Some ''month_name'',
             description = ''Revenue by month''\<rparr>"
  by (simp add: METRIC_DEFINITIONS_def)

lemma monthly_revenue_all:
  assumes "fs dataframe_path = Some (Inr df)"
  shows "calculate_outcome fs ''monthly_revenue'' dataframe_path ''all'' group_by_arg limit
           = SeriesResult ''monthly_revenue'' (time_series revenue df)"
  using assms
  by (simp add: calculate_outcome_def calculate_body_def monthly_revenue_entry
        apply_formula_def numeric_column_revenue)


text \<open>
  C8. The months of the time series are the list January to December with the months
  that no row carries left out: a subsequence of the calendar order that holds exactly
  the calendar months present in the frame, none added with a zero. Each month comes
  with the sum of the value column over the rows of that month name. (A row whose
  month name is not one of the twelve names is in no entry.)
\<close>

theorem time_series_calendar_order:
  "map fst (time_series val df) = filter (\<lambda>m. m \<in> month_name ` set df) months
   \<and> subseq (map fst (time_series val df)) months
   \<and> months = [''January'', ''February'', ''March'', ''April'', ''May'', ''June'',
                ''July'', ''August'', ''September'', ''October'', ''November'', ''December'']
   \<and> set (map fst (time_series val df)) = month_name ` set df \<inter> set months
   \<and> (month_name ` set df \<subseteq> set months \<longrightarrow>
         set (map fst (time_series val df)) = month_name ` set df)
   \<and> (\<forall>m v. (m, v) \<in> set (time_series val df) \<longrightarrow>
         (\<exists>t \<in> set df. month_name t = m)
         \<and> v = sum_list (map val (filter (\<lambda>t. month_name t = m) df)))
   \<and> (fs dataframe_path = Some (Inr df) \<longrightarrow>
         calculate_outcome fs ''monthly_revenue'' dataframe_path ''all'' group_by_arg limit
           = SeriesResult ''monthly_revenue'' (time_series revenue df))"
proof -
  have a: "map fst (time_series val df) = filter (\<lambda>m. m \<in> month_name ` set df) months"
    by (simp add: time_series_eq comp_def)
  have b: "subseq (map fst (time_series val df)) months"
    unfolding a by (rule subseq_filter_left)
  have c: "set (map fst (time_series val df)) = month_name ` set df \<inter> set months"
    unfolding a by auto
  have d: "(\<exists>t \<in> set df. month_name t = m)
         \<and> v = sum_list (map val (filter (\<lambda>t. month_name t = m) df))"
    if "(m, v) \<in> set (time_series val df)" for m v
    using that by (auto simp: time_series_eq)
  have e: "calculate_outcome fs ''monthly_revenue'' dataframe_path ''all'' group_by_arg limit
           = SeriesResult ''monthly_revenue'' (time_series revenue df)"
    if "fs dataframe_path = Some (Inr df)"
    using that by (rule monthly_revenue_all)
  have f: "months = [''January'', ''February'', ''March'', ''April'', ''May'', ''June'',
                ''July'', ''August'', ''September'', ''October'', ''November'', ''December'']"
    by (simp add: months_def)
  from c have c': "month_name ` set df \<subseteq> set months \<longrightarrow>
         set (map fst (time_series val df)) = month_name ` set df"
    by blast
  from a b c c' d e f show ?thesis by blast
qed

theorem time_series_calendar_order_witness:
  "month_name ` set unordered_df \<subseteq> set months
   \<and> one_file unordered_df ''data.csv'' = Some (Inr unordered_df)
   \<and> time_series revenue unordered_df = [(''January'', 40), (''March'', 35)]
   \<and> (''March'', 35) \<in> set (time_series revenue unordered_df)
   \<and> 35 = sum_list (map revenue (filter (\<lambda>t. month_name t = ''March'') unordered_df))
   \<and> subseq (map fst (time_series revenue unordered_df)) months
   \<and> calculate_outcome (one_file unordered_df) ''monthly_revenue'' ''data.csv'' ''all'' None 5
       = SeriesResult ''monthly_revenue'' (time_series revenue unordered_df)"
proof -
  have a: "month_name ` set unordered_df \<subseteq> set months" by code_simp
  have b: "one_file unordered_df ''data.csv'' = Some (Inr unordered_df)"
    by (simp add: one_file_def)
  have c: "time_series revenue unordered_df = [(''January'', 40), (''March'', 35)]"
    by code_simp
  then have d: "(''March'', 35) \<in> set (time_series revenue unordered_df)" by simp
  show ?thesis
    using time_series_calendar_order [where val = revenue and df = unordered_df
        and fs = "one_file unordered_df" and dataframe_path = "''data.csv''"
        and group_by_arg = None and limit = 5] a b c d
    by blast
qed

subsection \<open>Ranked group sums\<close>














subsection \<open>Failures are returned, never raised\<close>





end
